theory Spec2Isabelle
  imports Main
begin

section \<open>Values and messages\<close>

text \<open>
  Messages arrive as JSON objects decoded into Python dictionaries. A JSON value is
  \<open>None\<close>, an integer, a string, a list or an object. JSON booleans behave as the
  integers 0 and 1 under every operation the plugin applies (\<open>==\<close>, hashing,
  \<open>int()\<close>, truthiness) and are represented by \<open>PInt\<close>; floating-point numbers
  are not represented. A dictionary is an association list read with \<open>map_of\<close>.
\<close>

datatype pyval =
    PNone
  | PInt int
  | PStr string
  | PList "pyval list"
  | PDict "(string \<times> pyval) list"

type_synonym msg = "(string \<times> pyval) list"

text \<open>\<open>key in dictionary\<close>, \<open>dictionary.get(key, default)\<close> and \<open>dictionary[key]\<close>.\<close>

definition has_key :: "msg \<Rightarrow> string \<Rightarrow> bool" where
  "has_key d k = (map_of d k \<noteq> None)"

definition dict_get :: "msg \<Rightarrow> string \<Rightarrow> pyval \<Rightarrow> pyval" where
  "dict_get d k dflt = (case map_of d k of None \<Rightarrow> dflt | Some v \<Rightarrow> v)"

text \<open>
  \<^verbatim>\<open>def has_all(dictionary, *keys):
    for key in keys:
        if not key in dictionary:
            return False
    return True\<close>
\<close>

fun has_all :: "msg \<Rightarrow> string list \<Rightarrow> bool" where
  "has_all dictionary [] = True"
| "has_all dictionary (key # keys) =
     (if \<not> has_key dictionary key then False else has_all dictionary keys)"

text \<open>
  The exceptions that occur. All of them derive from Python's \<open>Exception\<close>;
  \<open>Failure\<close> stands for any other \<open>Exception\<close> a collaborator raises (a
  connection error of the transport, an HTTP error, a signing error).
\<close>

datatype exn =
    NameError string
  | KeyError string
  | AttributeError string
  | UnboundLocalError string
  | TypeError
  | ValueError
  | OverflowError
  | QueueEmpty
  | Failure string

section \<open>The plugin state\<close>

datatype level = DEBUG | INFO | WARN | ERROR

text \<open>The three bound methods that the code puts on the task queue.\<close>

datatype task = Task_hello | Task_ensure_idle_upload_url | Task_upload_snapshot

text \<open>Calls made on the printer collaborator (\<open>self._printer\<close>).\<close>

datatype printer_call =
    Cancel_print
  | Pause_print
  | Resume_print
  | Commands pyval
  | Set_temperature string pyval

text \<open>
  An entry of \<open>self._upload_location\<close>: the response dictionary whose \<open>expires\<close>
  entry has been overwritten with a \<open>datetime\<close>. A \<open>datetime\<close> is the number of
  microseconds since 0001-01-01T00:00:00.
\<close>

record descriptor =
  d_expires :: int
  d_response :: msg

text \<open>
  The attributes set by \<open>__init__\<close> and \<open>on_after_startup\<close>, followed by what the
  collaborators show and record: whether the printer is printing
  (\<open>self._printer.is_printing()\<close>), the wall clock (\<open>datetime.datetime.now()\<close>),
  the messages handed to the socket, the calls made on the printer, the snapshot
  uploads posted, and the log. The serial number, the challenge and the snapshot URL
  are \<open>None\<close> or a string. A log line is kept as its level and its message
  template, without the quotation marks and the formatted arguments. The attributes
  \<open>_socket\<close> and \<open>_polar_status_worker\<close> hold the transport and the thread, and
  \<open>_pstate\<close> and \<open>_pstate_counter\<close> are never read; they are left out. The
  queries and the commands of the printer return without raising.
\<close>

record plugin =
  serial :: "string option"
  challenge :: "string option"
  task_queue :: "task list"
  upload_location :: "pyval \<Rightarrow> descriptor option"
  update_interval :: nat
  cloud_print :: bool
  job_id :: string
  snapshot_url :: "string option"
  printing :: bool
  clock :: int
  emitted :: "(string \<times> msg) list"
  printer_calls :: "printer_call list"
  posted :: "(pyval \<times> pyval \<times> string) list"
  logged :: "(level \<times> string) list"

text \<open>The outcome of a call: it returns a value or raises, and leaves a state either way.\<close>

datatype 'a result = Return 'a plugin | Raise exn plugin

fun state_of :: "'a result \<Rightarrow> plugin" where
  "state_of (Return v st) = st"
| "state_of (Raise e st) = st"

fun raised :: "'a result \<Rightarrow> exn option" where
  "raised (Return v st) = None"
| "raised (Raise e st) = Some e"

text \<open>Truthiness of an attribute that is \<open>None\<close> or a string.\<close>

fun truthy :: "string option \<Rightarrow> bool" where
  "truthy None = False"
| "truthy (Some s) = (s \<noteq> [])"

fun as_pyval :: "string option \<Rightarrow> pyval" where
  "as_pyval None = PNone"
| "as_pyval (Some s) = PStr s"

definition logger :: "level \<Rightarrow> string \<Rightarrow> plugin \<Rightarrow> plugin" where
  "logger lvl line st = st\<lparr>logged := logged st @ [(lvl, line)]\<rparr>"

text \<open>
  \<^verbatim>\<open>def _get_job_id(self):
    if self._printer.is_printing():
        return self._job_id
    else:
        return '0'\<close>
\<close>

definition get_job_id :: "plugin \<Rightarrow> string" where
  "get_job_id st = (if printing st then job_id st else ''0'')"

text \<open>
  \<^verbatim>\<open>def _valid_packet(self, data):
    if not self._serial or self._serial != data.get("serialNumber", ""):
        self._logger.debug("Serial number is '{}'".format(repr(self._serial)))
        self._logger.debug("Ignoring message to '{}'".format(data.get("serialNumber", "")))
        return False
    return True\<close>
\<close>

definition valid_packet :: "msg \<Rightarrow> plugin \<Rightarrow> bool \<times> plugin" where
  "valid_packet data st =
     (if \<not> truthy (serial st)
         \<or> as_pyval (serial st) \<noteq> dict_get data ''serialNumber'' (PStr [])
      then (False, logger DEBUG ''Ignoring message to {}''
                     (logger DEBUG ''Serial number is {}'' st))
      else (True, st))"

section \<open>Collaborators\<close>

text \<open>
  What the plugin calls but does not implement: the key signer
  (\<open>base64.b64encode(crypto.sign(self.key, challenge, b'sha256'))\<close>), \<open>get_mac()\<close>,
  \<open>get_ip()\<close>, the transport (\<open>self._socket.emit\<close> either raises or hands the
  message over; \<open>self._socket.wait\<close> lets time pass and may run anything), the
  payload assembled by \<open>_current_status\<close> from the printer's data, the HTTP client
  (\<open>requests.get\<close>, \<open>requests.post\<close>) and Python's \<open>int()\<close> on a string. Each may
  raise; the theorems below hold for every behaviour of them unless a hypothesis says
  otherwise.
\<close>

record response =
  r_ok :: bool
  r_content :: string

record env =
  signer :: "pyval \<Rightarrow> exn + string"
  get_mac :: string
  get_ip :: pyval
  emit_fault :: "plugin \<Rightarrow> string \<Rightarrow> msg \<Rightarrow> exn option"
  socket_wait :: "nat \<Rightarrow> plugin \<Rightarrow> unit result"
  status_payload :: "plugin \<Rightarrow> exn + msg"
  requests_get :: "plugin \<Rightarrow> string option \<Rightarrow> exn + response"
  requests_post :: "plugin \<Rightarrow> pyval \<Rightarrow> pyval \<Rightarrow> string \<Rightarrow> exn + response"
  int_of_str :: "string \<Rightarrow> int option"

text \<open>\<open>self._socket.emit(event, payload)\<close>\<close>

definition socket_emit :: "env \<Rightarrow> string \<Rightarrow> msg \<Rightarrow> plugin \<Rightarrow> unit result" where
  "socket_emit env event payload st =
     (case emit_fault env st event payload of
        Some e \<Rightarrow> Raise e st
      | None \<Rightarrow> Return () (st\<lparr>emitted := emitted st @ [(event, payload)]\<rparr>))"

text \<open>\<open>dictionary[key]\<close> raises \<open>KeyError\<close> on a missing key.\<close>

definition subscript :: "msg \<Rightarrow> string \<Rightarrow> exn + pyval" where
  "subscript d k = (case map_of d k of None \<Rightarrow> Inl (KeyError k) | Some v \<Rightarrow> Inr v)"

text \<open>\<open>int(v)\<close>\<close>

fun py_int :: "env \<Rightarrow> pyval \<Rightarrow> exn + int" where
  "py_int env (PInt i) = Inr i"
| "py_int env (PStr s) = (case int_of_str env s of None \<Rightarrow> Inl ValueError | Some i \<Rightarrow> Inr i)"
| "py_int env PNone = Inl TypeError"
| "py_int env (PList xs) = Inl TypeError"
| "py_int env (PDict d) = Inl TypeError"

text \<open>
  \<open>datetime.timedelta(seconds=n)\<close>, in microseconds: the number of days must have a
  magnitude of at most 999999999. \<open>datetime + timedelta\<close>: the result must lie in the
  years 1 to 9999, that is on one of the days 1 to 3652059.
\<close>

definition timedelta :: "int \<Rightarrow> exn + int" where
  "timedelta n =
     (if \<bar>n div 86400\<bar> > 999999999 then Inl OverflowError else Inr (n * 1000000))"

definition datetime_add :: "int \<Rightarrow> int \<Rightarrow> exn + int" where
  "datetime_add t d =
     (if 0 \<le> t + d \<and> t + d < 3652059 * 86400000000 then Inr (t + d)
      else Inl OverflowError)"

text \<open>Lists and dictionaries cannot be dictionary keys.\<close>

fun hashable :: "pyval \<Rightarrow> bool" where
  "hashable (PList xs) = False"
| "hashable (PDict d) = False"
| "hashable v = True"

section \<open>Upload locations\<close>

text \<open>
  \<^verbatim>\<open>def _get_url(self, url_type, job_id):
    self._logger.debug('getUrl')
    self._socket.emit('getUrl', {
        'serialNumber': self._serial,
        'method': 'post',
        'type': url_type,
        'jobId': job_id
    })\<close>
\<close>

definition get_url :: "env \<Rightarrow> string \<Rightarrow> string \<Rightarrow> plugin \<Rightarrow> unit result" where
  "get_url env url_type jid st =
     socket_emit env ''getUrl''
       [(''serialNumber'', as_pyval (serial st)),
        (''method'', PStr ''post''),
        (''type'', PStr url_type),
        (''jobId'', PStr jid)]
       (logger DEBUG ''getUrl'' st)"

text \<open>
  \<^verbatim>\<open>def _ensure_upload_url(self, upload_type):
    if not self._snapshot_url:
        return False
    if not upload_type in self._upload_location or datetime.datetime.now() > self._upload_location[upload_type]['expires']:
        self._get_url(upload_type, self._get_job_id())
        return False
    return True\<close>
\<close>

definition ensure_upload_url :: "env \<Rightarrow> string \<Rightarrow> plugin \<Rightarrow> bool result" where
  "ensure_upload_url env upload_type st =
     (if \<not> truthy (snapshot_url st) then Return False st
      else if (case upload_location st (PStr upload_type) of
                 None \<Rightarrow> True
               | Some loc \<Rightarrow> clock st > d_expires loc)
      then (case get_url env upload_type (get_job_id st) st of
              Raise e st1 \<Rightarrow> Raise e st1
            | Return u st1 \<Rightarrow> Return False st1)
      else Return True st)"

text \<open>
  \<^verbatim>\<open>def _ensure_idle_upload_url(self):
    self._ensure_upload_url('idle')\<close>
\<close>

definition ensure_idle_upload_url :: "env \<Rightarrow> plugin \<Rightarrow> unit result" where
  "ensure_idle_upload_url env st =
     (case ensure_upload_url env ''idle'' st of
        Raise e st1 \<Rightarrow> Raise e st1
      | Return b st1 \<Rightarrow> Return () st1)"

text \<open>
  \<^verbatim>\<open>def _on_get_url_response(self, response, *args, **kwargs):
    if not self._valid_packet(response):
        return
    self._logger.debug('getUrlResponse {}'.format(repr(response)))
    if not has_all(response, 'status'):
        self._logger.warn('getUrlResponse lacks status property')
        return
    if not response['status'] == 'SUCCESS':
        self._logger.warn('Failed to get upload url: {} {}'
            .format(response['status'], response.get('message', '')))
        return
    if not has_all(response, 'type', 'expires', 'url', 'maxSize', 'fields'):
        self._logger.warn('getUrlResponse lacks a required property')
    response["expires"] = (datetime.datetime.now() + datetime.timedelta(seconds=int(response.get("expires", 0))))
    self._upload_location[response.get('type', 'idle')] = response
    self._logger.debug('response["type"] = {}', response.get('type', ''))
    if response.get('type', '') == 'idle':
        self._task_queue.put(self._upload_snapshot)\<close>
  \<open>new_expires\<close> computes the value assigned to \<open>response["expires"]\<close>;
  \<open>record_upload_location\<close> is the part of the handler from that assignment on.
\<close>

definition new_expires :: "env \<Rightarrow> msg \<Rightarrow> plugin \<Rightarrow> exn + int" where
  "new_expires env response st =
     (case py_int env (dict_get response ''expires'' (PInt 0)) of
        Inl e \<Rightarrow> Inl e
      | Inr secs \<Rightarrow>
          (case timedelta secs of
             Inl e \<Rightarrow> Inl e
           | Inr d \<Rightarrow> datetime_add (clock st) d))"

definition record_upload_location :: "env \<Rightarrow> msg \<Rightarrow> plugin \<Rightarrow> unit result" where
  "record_upload_location env response st =
     (case new_expires env response st of
        Inl e \<Rightarrow> Raise e st
      | Inr expires \<Rightarrow>
          (let k = dict_get response ''type'' (PStr ''idle'') in
           if \<not> hashable k then Raise TypeError st
           else
             (let st1 = st\<lparr>upload_location := (upload_location st)
                            (k \<mapsto> \<lparr>d_expires = expires, d_response = response\<rparr>)\<rparr>;
                  st2 = logger DEBUG ''response[type] = {}'' st1
              in if dict_get response ''type'' (PStr []) = PStr ''idle''
                 then Return () (st2\<lparr>task_queue := task_queue st2 @ [Task_upload_snapshot]\<rparr>)
                 else Return () st2)))"

definition on_get_url_response :: "env \<Rightarrow> msg \<Rightarrow> plugin \<Rightarrow> unit result" where
  "on_get_url_response env response st0 =
     (let (valid, st) = valid_packet response st0 in
      if \<not> valid then Return () st
      else
        (let st1 = logger DEBUG ''getUrlResponse {}'' st in
         if \<not> has_all response [''status'']
         then Return () (logger WARN ''getUrlResponse lacks status property'' st1)
         else
           (case subscript response ''status'' of
              Inl e \<Rightarrow> Raise e st1
            | Inr status \<Rightarrow>
                if \<not> status = PStr ''SUCCESS''
                then Return () (logger WARN ''Failed to get upload url: {} {}'' st1)
                else
                  (let st2 =
                         (if \<not> has_all response
                                 [''type'', ''expires'', ''url'', ''maxSize'', ''fields'']
                          then logger WARN ''getUrlResponse lacks a required property'' st1
                          else st1)
                   in record_upload_location env response st2))))"

section \<open>The handshake\<close>

text \<open>
  \<^verbatim>\<open>def _hello(self):
    self._logger.debug('hello')
    if self._serial and self._challenge:
        self._logger.debug('emit hello')
        self._socket.emit('hello', {
            'serialNumber': self._serial,
            'signature': base64.b64encode(crypto.sign(self.key, self._challenge, b'sha256')),
            'MAC': get_mac(),
            'localIp': get_ip(),
            'protocol': '2'
        })
        self._task_queue.put(self._ensure_idle_upload_url)
    else:
        self._logger.debug('skip emit hello, serial: {}'.format(self._serial))\<close>
  \<open>hello_payload\<close> is the dictionary handed to \<open>emit\<close>.
\<close>

definition hello_payload :: "env \<Rightarrow> plugin \<Rightarrow> string \<Rightarrow> msg" where
  "hello_payload env st signature =
     [(''serialNumber'', as_pyval (serial st)),
      (''signature'', PStr signature),
      (''MAC'', PStr (get_mac env)),
      (''localIp'', get_ip env),
      (''protocol'', PStr ''2'')]"

definition hello :: "env \<Rightarrow> plugin \<Rightarrow> unit result" where
  "hello env st0 =
     (let st = logger DEBUG ''hello'' st0 in
      if truthy (serial st) \<and> truthy (challenge st)
      then
        (let st1 = logger DEBUG ''emit hello'' st in
         case signer env (as_pyval (challenge st1)) of
           Inl e \<Rightarrow> Raise e st1
         | Inr signature \<Rightarrow>
             (case socket_emit env ''hello'' (hello_payload env st1 signature) st1 of
                Raise e st2 \<Rightarrow> Raise e st2
              | Return u st2 \<Rightarrow>
                  Return () (st2\<lparr>task_queue := task_queue st2 @ [Task_ensure_idle_upload_url]\<rparr>)))
      else Return () (logger DEBUG ''skip emit hello, serial: {}'' st))"

section \<open>Inbound commands\<close>

text \<open>
  \<^verbatim>\<open>def _on_cancel(self, data, *args, **kwargs):
    if not self._valid_packet(data):
        return
    self._printer.cancel_print()\<close>
\<close>

definition printer_call :: "printer_call \<Rightarrow> plugin \<Rightarrow> plugin" where
  "printer_call c st = st\<lparr>printer_calls := printer_calls st @ [c]\<rparr>"






text \<open>
  \<^verbatim>\<open>def _on_temperature(self, data, *args, **kwargs):
    if not self._valid_packet(data):
        return
    for key in data:
        if re.match("(?bed)|(?tool[0-9]+)", key):
            self._logger.debug("set_temperature {} to {}", key, data['key'])
            self._printer.set_temperature(key, data['key'])\<close>
  The module never imports \<open>re\<close> (its imports are \<open>os\<close>, \<open>threading\<close>,
  \<open>logging\<close>, \<open>uuid\<close>, \<open>Queue\<close>, \<open>base64\<close>, \<open>datetime\<close>, \<open>crypto\<close>,
  \<open>socketIO_client\<close>, \<open>sarge\<close>, \<open>flask\<close>, \<open>requests\<close> and \<open>octoprint\<close>), so
  the name is unbound and evaluating \<open>re.match\<close> for the first key raises
  \<open>NameError\<close>; the rest of the loop body is never reached.
\<close>

fun temperature_keys :: "string list \<Rightarrow> msg \<Rightarrow> plugin \<Rightarrow> unit result" where
  "temperature_keys [] data st = Return () st"
| "temperature_keys (key # keys) data st = Raise (NameError ''re'') st"

definition on_temperature :: "msg \<Rightarrow> plugin \<Rightarrow> unit result" where
  "on_temperature data st0 =
     (let (valid, st) = valid_packet data st0 in
      if \<not> valid then Return () st
      else temperature_keys (map fst data) data st)"


section \<open>Printer events\<close>

text \<open>
  \<^verbatim>\<open>def on_event(self, event, payload):
    if event == Events.PRINT_CANCELLED:
        if self._cloud_print:
            self._pstate = self.PSTATE_CANCELLING
            self._pstate_counter = 3
    if event == Events.PRINT_STARTED or event == Events.PRINT_RESUMED:
        self._update_interval = 10\<close>
  The class declares \<open>PSTATE_CANCELING\<close> and no \<open>PSTATE_CANCELLING\<close>, so reading
  the latter raises \<open>AttributeError\<close>.
\<close>

datatype event = PRINT_STARTED | PRINT_RESUMED | PRINT_CANCELLED | Other_event string

definition on_event :: "event \<Rightarrow> plugin \<Rightarrow> unit result" where
  "on_event event st =
     (if event = PRINT_CANCELLED \<and> cloud_print st
      then Raise (AttributeError ''PSTATE_CANCELLING'') st
      else if event = PRINT_STARTED \<or> event = PRINT_RESUMED
      then Return () (st\<lparr>update_interval := 10\<rparr>)
      else Return () st)"

section \<open>Snapshots\<close>

text \<open>
  \<^verbatim>\<open>def _upload_snapshot(self):
    self._logger.debug("_upload_snapshot")
    upload_type = 'idle' # TODO cloud print
    if not self._ensure_upload_url(upload_type):
        return
    try:
        loc = self._upload_location[upload_type]
        r = requests.get(self._snapshot_url, timeout=5)
        r.raise_for_status()
    except Exception as e:
        self._logger.exception("Could not capture image from {}".format(self._snapshot_url))

    try:
        p = requests.post(loc['url'], data=loc['fields'], files={'file': ('image.jpg', r.content)})
        self._logger.debug("{}".format(p.text))
        p.raise_for_status()
        t = p.status_code
        self._logger.debug("{}: {}".format(t, p.content))

        self._logger.debug("Image captured from {}".format(self._snapshot_url))
    except Exception as e:
        self._logger.exception("Could not post snapshot to PolarCloud")\<close>
  \<open>capture_image\<close> is the first \<open>try\<close> statement; it yields the local variables
  \<open>loc\<close> and \<open>r\<close>, each bound or not. \<open>post_snapshot\<close> is the second.
\<close>

definition capture_image ::
  "env \<Rightarrow> string \<Rightarrow> plugin \<Rightarrow> descriptor option \<times> response option \<times> plugin" where
  "capture_image env upload_type st =
     (case upload_location st (PStr upload_type) of
        None \<Rightarrow> (None, None, logger ERROR ''Could not capture image from {}'' st)
      | Some loc \<Rightarrow>
          (case requests_get env st (snapshot_url st) of
             Inl e \<Rightarrow> (Some loc, None, logger ERROR ''Could not capture image from {}'' st)
           | Inr r \<Rightarrow>
               if r_ok r then (Some loc, Some r, st)
               else (Some loc, Some r, logger ERROR ''Could not capture image from {}'' st)))"

definition post_snapshot ::
  "env \<Rightarrow> descriptor option \<Rightarrow> response option \<Rightarrow> plugin \<Rightarrow> plugin" where
  "post_snapshot env loc r st =
     (let failed = logger ERROR ''Could not post snapshot to PolarCloud'' in
      case loc of
        None \<Rightarrow> failed st
      | Some l \<Rightarrow>
          (case subscript (d_response l) ''url'' of
             Inl e \<Rightarrow> failed st
           | Inr url \<Rightarrow>
               (case subscript (d_response l) ''fields'' of
                  Inl e \<Rightarrow> failed st
                | Inr form \<Rightarrow>
                    (case r of
                       None \<Rightarrow> failed st
                     | Some got \<Rightarrow>
                         (case requests_post env st url form (r_content got) of
                            Inl e \<Rightarrow> failed st
                          | Inr p \<Rightarrow>
                              (let st1 = logger DEBUG ''{}''
                                           (st\<lparr>posted := posted st
                                                  @ [(url, form, r_content got)]\<rparr>)
                               in if \<not> r_ok p then failed st1
                                  else logger DEBUG ''Image captured from {}''
                                         (logger DEBUG ''{}: {}'' st1)))))))"

definition upload_snapshot :: "env \<Rightarrow> plugin \<Rightarrow> unit result" where
  "upload_snapshot env st0 =
     (let st = logger DEBUG ''_upload_snapshot'' st0;
          upload_type = ''idle''
      in case ensure_upload_url env upload_type st of
           Raise e st1 \<Rightarrow> Raise e st1
         | Return fresh st1 \<Rightarrow>
             if \<not> fresh then Return () st1
             else
               (let (loc, r, st2) = capture_image env upload_type st1
                in Return () (post_snapshot env loc r st2)))"

section \<open>The heartbeat\<close>

text \<open>
  \<^verbatim>\<open>def _current_status(self):
    temps = self._printer.get_current_temperatures()
    self._logger.debug("{}".format(temps))
    status = { ... }
    ...
    return status\<close>
  The temperatures are read and logged (the queries of the printer return without
  raising), then the payload is assembled from the printer's temperatures, state and
  job data, with floating-point formatting and date arithmetic; what it holds is left
  to the collaborator \<open>status_payload\<close>, which may also raise (a printer state
  that the mapping of \<open>_polar_status_from_state\<close> lacks is a \<open>KeyError\<close>).
\<close>

definition current_status :: "env \<Rightarrow> plugin \<Rightarrow> msg result" where
  "current_status env st0 =
     (let st = logger DEBUG ''{}'' st0 in
      case status_payload env st of
        Inl e \<Rightarrow> Raise e st
      | Inr status \<Rightarrow> Return status st)"

text \<open>Calling a queued task.\<close>

fun run_task :: "env \<Rightarrow> task \<Rightarrow> plugin \<Rightarrow> unit result" where
  "run_task env Task_hello st = hello env st"
| "run_task env Task_ensure_idle_upload_url st = ensure_idle_upload_url env st"
| "run_task env Task_upload_snapshot st = upload_snapshot env st"

text \<open>
  \<^verbatim>\<open>try:
    task = self._task_queue.get_nowait()
    task()
except Queue.Empty:
    pass\<close>
\<close>

definition drain_one :: "env \<Rightarrow> plugin \<Rightarrow> unit result" where
  "drain_one env st =
     (case task_queue st of
        [] \<Rightarrow> Return () st
      | t # ts \<Rightarrow>
          (case run_task env t (st\<lparr>task_queue := ts\<rparr>) of
             Raise e st1 \<Rightarrow> if e = QueueEmpty then Return () st1 else Raise e st1
           | Return u st1 \<Rightarrow> Return () st1))"

text \<open>
  \<^verbatim>\<open>for i in range(self._update_interval):
    try:
        task = self._task_queue.get_nowait()
        task()
    except Queue.Empty:
        pass
    self._socket.wait(seconds=1)\<close>
\<close>

fun wait_loop :: "env \<Rightarrow> nat \<Rightarrow> plugin \<Rightarrow> unit result" where
  "wait_loop env 0 st = Return () st"
| "wait_loop env (Suc n) st =
     (case drain_one env st of
        Raise e st1 \<Rightarrow> Raise e st1
      | Return u st1 \<Rightarrow>
          (case socket_wait env 1 st1 of
             Raise e st2 \<Rightarrow> Raise e st2
           | Return v st2 \<Rightarrow> wait_loop env n st2))"

text \<open>
  \<^verbatim>\<open>if self._serial:
    status = self._current_status()
    self._socket.emit("status", status)

    # reset update interval to slow if we're not printing anymore
    # we do it here so we get one quick update when it changes
    if not self._cloud_print and not self._printer.is_printing():
        self._update_interval = 60\<close>
\<close>

definition status_phase :: "env \<Rightarrow> plugin \<Rightarrow> unit result" where
  "status_phase env st =
     (if truthy (serial st)
      then
        (case current_status env st of
           Raise e st1 \<Rightarrow> Raise e st1
         | Return status st1 \<Rightarrow>
             (case socket_emit env ''status'' status st1 of
                Raise e st2 \<Rightarrow> Raise e st2
              | Return u st2 \<Rightarrow>
                  if \<not> cloud_print st2 \<and> \<not> printing st2
                  then Return () (st2\<lparr>update_interval := 60\<rparr>)
                  else Return () st2))
      else Return () st)"

text \<open>
  \<^verbatim>\<open>if self._serial:
    self._upload_snapshot()\<close>
\<close>

definition snapshot_phase :: "env \<Rightarrow> plugin \<Rightarrow> unit result" where
  "snapshot_phase env st =
     (if truthy (serial st) then upload_snapshot env st else Return () st)"

text \<open>The statements inside the \<open>try\<close> of the \<open>while True\<close> loop.\<close>

definition loop_body :: "env \<Rightarrow> plugin \<Rightarrow> unit result" where
  "loop_body env st =
     (case status_phase env st of
        Raise e st1 \<Rightarrow> Raise e st1
      | Return u st1 \<Rightarrow>
          (case wait_loop env (update_interval st1) st1 of
             Raise e st2 \<Rightarrow> Raise e st2
           | Return v st2 \<Rightarrow> snapshot_phase env st2))"

text \<open>
  \<^verbatim>\<open>try:
    ...
except Exception as e:
    import traceback
    self._logger.warn("polar_status exception: {}".format(traceback.format_exc()))\<close>
\<close>

definition loop_iteration :: "env \<Rightarrow> plugin \<Rightarrow> unit result" where
  "loop_iteration env st =
     (case loop_body env st of
        Raise e st1 \<Rightarrow> Return () (logger WARN ''polar_status exception: {}'' st1)
      | Return u st1 \<Rightarrow> Return () st1)"

text \<open>
  \<open>while True\<close>: the loop has no exit of its own. \<open>heartbeat_loop env n\<close> runs it
  for \<open>n\<close> iterations and returns the state reached, the loop still running; it raises
  when an iteration lets an exception escape, which ends the thread.
\<close>

fun heartbeat_loop :: "env \<Rightarrow> nat \<Rightarrow> plugin \<Rightarrow> unit result" where
  "heartbeat_loop env 0 st = Return () st"
| "heartbeat_loop env (Suc n) st =
     (case loop_iteration env st of
        Raise e st1 \<Rightarrow> Raise e st1
      | Return u st1 \<Rightarrow> heartbeat_loop env n st1)"

text \<open>
  \<^verbatim>\<open>def _polar_status_heartbeat(self):
    try:
        task = self._task_queue.get_nowait()
        task()
    except Queue.Empty:
        pass
    self._socket.wait(seconds=5)
    while True:
        ...\<close>
\<close>

definition polar_status_heartbeat :: "env \<Rightarrow> nat \<Rightarrow> plugin \<Rightarrow> unit result" where
  "polar_status_heartbeat env n st =
     (case drain_one env st of
        Raise e st1 \<Rightarrow> Raise e st1
      | Return u st1 \<Rightarrow>
          (case socket_wait env 5 st1 of
             Raise e st2 \<Rightarrow> Raise e st2
           | Return v st2 \<Rightarrow> heartbeat_loop env n st2))"

section \<open>Initial state and sample collaborators\<close>

text \<open>
  \<^verbatim>\<open>def __init__(self):
    self._serial = None
    self._socket = None
    self._challenge = None
    self._task_queue = Queue.Queue()
    self._polar_status_worker = None
    self._upload_location = {}
    self._update_interval = 60
    self._cloud_print = False
    self._job_id = "123"
    self._pstate = self.PSTATE_IDLE # only applies if _cloud_print
    self._pstate_counter = 0\<close>
  with no snapshot URL configured, an idle printer, the clock at the start of the
  year 2017, and nothing sent or logged yet.
\<close>

definition init :: plugin where
  "init =
     \<lparr>serial = None, challenge = None, task_queue = [], upload_location = Map.empty,
      update_interval = 60, cloud_print = False, job_id = ''123'', snapshot_url = None,
      printing = False, clock = 63618825600000000, emitted = [], printer_calls = [],
      posted = [], logged = []\<rparr>"

text \<open>Collaborators that never fail, and a transport wait during which nothing happens.\<close>

definition quiet :: env where
  "quiet =
     \<lparr>signer = (\<lambda>c. Inr ''c2lnbmF0dXJl''),
      get_mac = ''00:11:22:33:44:55'',
      get_ip = PStr ''192.168.1.20'',
      emit_fault = (\<lambda>st event payload. None),
      socket_wait = (\<lambda>seconds st. Return () st),
      status_payload = (\<lambda>st. Inr [(''serialNumber'', as_pyval (serial st))]),
      requests_get = (\<lambda>st url. Inr \<lparr>r_ok = True, r_content = ''jpeg''\<rparr>),
      requests_post = (\<lambda>st url form file. Inr \<lparr>r_ok = True, r_content = []\<rparr>),
      int_of_str = (\<lambda>s. None)\<rparr>"

text \<open>
  The same collaborators with a printer in a state that \<open>_polar_status_from_state\<close>
  does not map, so that building the status raises \<open>KeyError\<close>.
\<close>

definition unmapped_state :: env where
  "unmapped_state = quiet\<lparr>status_payload := (\<lambda>st. Inl (KeyError ''STARTING''))\<rparr>"

section \<open>Address validation\<close>

lemma valid_packet_fst:
  "fst (valid_packet m st) \<longleftrightarrow>
     (\<exists>s. serial st = Some s \<and> s \<noteq> [] \<and> map_of m ''serialNumber'' = Some (PStr s))"
  by (cases "serial st"; cases "map_of m ''serialNumber''")
     (auto simp: valid_packet_def dict_get_def)


lemma valid_packet_accepts:
  "fst (valid_packet m st) \<Longrightarrow> valid_packet m st = (True, st)"
  by (cases "\<not> truthy (serial st)
         \<or> as_pyval (serial st) \<noteq> dict_get m ''serialNumber'' (PStr [])")
     (simp_all add: valid_packet_def)



section \<open>The hello task\<close>

lemma hello_skip:
  "\<not> (truthy (serial st) \<and> truthy (challenge st)) \<Longrightarrow>
     hello env st = Return () (st\<lparr>logged := logged st @
        [(DEBUG, ''hello''), (DEBUG, ''skip emit hello, serial: {}'')]\<rparr>)"
  by (cases "truthy (serial st)"; cases "truthy (challenge st)")
     (simp_all add: hello_def Let_def logger_def)

lemma hello_sign_fails:
  "truthy (serial st) \<Longrightarrow> truthy (challenge st) \<Longrightarrow>
   signer env (as_pyval (challenge st)) = Inl e \<Longrightarrow>
     hello env st = Raise e (st\<lparr>logged := logged st @
        [(DEBUG, ''hello''), (DEBUG, ''emit hello'')]\<rparr>)"
  by (simp add: hello_def Let_def logger_def)

lemma hello_emit_fails:
  "truthy (serial st) \<Longrightarrow> truthy (challenge st) \<Longrightarrow>
   signer env (as_pyval (challenge st)) = Inr sg \<Longrightarrow>
   emit_fault env (logger DEBUG ''emit hello'' (logger DEBUG ''hello'' st))
      ''hello'' (hello_payload env st sg) = Some e \<Longrightarrow>
     hello env st = Raise e (st\<lparr>logged := logged st @
        [(DEBUG, ''hello''), (DEBUG, ''emit hello'')]\<rparr>)"
  by (simp add: hello_def Let_def logger_def socket_emit_def hello_payload_def)

lemma hello_emits:
  "truthy (serial st) \<Longrightarrow> truthy (challenge st) \<Longrightarrow>
   signer env (as_pyval (challenge st)) = Inr sg \<Longrightarrow>
   emit_fault env (logger DEBUG ''emit hello'' (logger DEBUG ''hello'' st))
      ''hello'' (hello_payload env st sg) = None \<Longrightarrow>
     hello env st = Return () (st\<lparr>logged := logged st @
        [(DEBUG, ''hello''), (DEBUG, ''emit hello'')],
        emitted := emitted st @ [(''hello'', hello_payload env st sg)],
        task_queue := task_queue st @ [Task_ensure_idle_upload_url]\<rparr>)"
  by (simp add: hello_def Let_def logger_def socket_emit_def hello_payload_def)




text \<open>
  Claim C9, as amended. The hello task does not clear the challenge: whether it emits,
  skips or fails, the challenge stored afterwards is the one stored before. (No
  statement of the plugin assigns \<open>self._challenge\<close> apart from \<open>__init__\<close> and the
  handler of \<open>welcome\<close>, which stores a new one.)
\<close>

theorem hello_keeps_challenge:
  "challenge (state_of (hello env st)) = challenge st"
proof (cases "truthy (serial st) \<and> truthy (challenge st)")
  case False
  then show ?thesis by (simp add: hello_skip)
next
  case both: True
  show ?thesis
  proof (cases "signer env (as_pyval (challenge st))")
    case (Inl e)
    with both show ?thesis by (simp add: hello_sign_fails)
  next
    case (Inr sg)
    show ?thesis
    proof (cases "emit_fault env (logger DEBUG ''emit hello'' (logger DEBUG ''hello'' st))
                    ''hello'' (hello_payload env st sg)")
      case None
      with both Inr show ?thesis by (simp add: hello_emits)
    next
      case (Some e)
      with both Inr show ?thesis by (simp add: hello_emit_fails)
    qed
  qed
qed

text \<open>
  The claim as stated fails: with the serial \<open>SN1\<close> and the challenge \<open>abc\<close> the
  task returns, has emitted the hello message, and the challenge is still \<open>abc\<close>.
\<close>

theorem challenge_not_cleared_counterexample:
  "raised (hello quiet (init\<lparr>serial := Some ''SN1'', challenge := Some ''abc''\<rparr>)) = None
   \<and> map fst (emitted (state_of
        (hello quiet (init\<lparr>serial := Some ''SN1'', challenge := Some ''abc''\<rparr>)))) = [''hello'']
   \<and> challenge (state_of
        (hello quiet (init\<lparr>serial := Some ''SN1'', challenge := Some ''abc''\<rparr>))) = Some ''abc''"
  by (simp add: hello_def Let_def logger_def socket_emit_def quiet_def init_def)

section \<open>Freshness of upload locations\<close>

lemma ensure_upload_url_no_camera:
  "\<not> truthy (snapshot_url st) \<Longrightarrow> ensure_upload_url env p st = Return False st"
  by (simp add: ensure_upload_url_def)

lemma ensure_upload_url_fresh:
  "truthy (snapshot_url st) \<Longrightarrow> upload_location st (PStr p) = Some loc \<Longrightarrow>
   clock st \<le> d_expires loc \<Longrightarrow> ensure_upload_url env p st = Return True st"
  by (simp add: ensure_upload_url_def)

lemma ensure_upload_url_stale:
  "truthy (snapshot_url st) \<Longrightarrow>
   upload_location st (PStr p) = None
     \<or> (\<exists>loc. upload_location st (PStr p) = Some loc \<and> d_expires loc < clock st) \<Longrightarrow>
   ensure_upload_url env p st =
     (case get_url env p (get_job_id st) st of
        Raise e st1 \<Rightarrow> Raise e st1
      | Return u st1 \<Rightarrow> Return False st1)"
  by (auto simp: ensure_upload_url_def)

lemma get_url_sent:
  "emit_fault env (logger DEBUG ''getUrl'' st) ''getUrl''
     [(''serialNumber'', as_pyval (serial st)), (''method'', PStr ''post''),
      (''type'', PStr p), (''jobId'', PStr j)] = None \<Longrightarrow>
   get_url env p j st =
     Return () (st\<lparr>logged := logged st @ [(DEBUG, ''getUrl'')],
                   emitted := emitted st @
                     [(''getUrl'', [(''serialNumber'', as_pyval (serial st)),
                                    (''method'', PStr ''post''),
                                    (''type'', PStr p), (''jobId'', PStr j)])]\<rparr>)"
  by (simp add: get_url_def socket_emit_def logger_def)

lemma get_url_fails:
  "emit_fault env (logger DEBUG ''getUrl'' st) ''getUrl''
     [(''serialNumber'', as_pyval (serial st)), (''method'', PStr ''post''),
      (''type'', PStr p), (''jobId'', PStr j)] = Some e \<Longrightarrow>
   get_url env p j st = Raise e (st\<lparr>logged := logged st @ [(DEBUG, ''getUrl'')]\<rparr>)"
  by (simp add: get_url_def socket_emit_def logger_def)

lemma ensure_upload_url_True:
  "ensure_upload_url env p st = Return True st' \<Longrightarrow>
     truthy (snapshot_url st)
     \<and> (\<exists>loc. upload_location st (PStr p) = Some loc \<and> clock st \<le> d_expires loc)"
  by (auto simp: ensure_upload_url_def split: if_splits option.splits result.splits)

text \<open>
  Claim C3, as amended. \<open>_ensure_upload_url(p)\<close> returns true exactly when a snapshot
  URL is configured, a descriptor for \<open>p\<close> is cached and the current time is not
  after its expiry (at the instant of expiry the descriptor still counts as fresh);
  it then changes nothing. With a snapshot URL configured and no such descriptor, the
  call emits exactly one \<open>getUrl\<close> message carrying the serial number, the method
  \<open>post\<close>, the purpose and the current job id, and returns false, provided the
  transport takes the message. With no snapshot URL configured it returns false and
  emits nothing, whatever the cache holds.
\<close>

theorem ensure_upload_url_fresh_iff:
  "((\<exists>st'. ensure_upload_url env p st = Return True st') \<longleftrightarrow>
       truthy (snapshot_url st)
       \<and> (\<exists>loc. upload_location st (PStr p) = Some loc \<and> clock st \<le> d_expires loc))
   \<and> ((\<exists>st'. ensure_upload_url env p st = Return True st') \<longrightarrow>
         ensure_upload_url env p st = Return True st)
   \<and> (truthy (snapshot_url st)
        \<and> \<not> (\<exists>loc. upload_location st (PStr p) = Some loc \<and> clock st \<le> d_expires loc)
        \<and> emit_fault env (logger DEBUG ''getUrl'' st) ''getUrl''
             [(''serialNumber'', as_pyval (serial st)), (''method'', PStr ''post''),
              (''type'', PStr p), (''jobId'', PStr (get_job_id st))] = None
       \<longrightarrow> ensure_upload_url env p st =
             Return False
               (st\<lparr>logged := logged st @ [(DEBUG, ''getUrl'')],
                    emitted := emitted st @
                      [(''getUrl'', [(''serialNumber'', as_pyval (serial st)),
                                     (''method'', PStr ''post''),
                                     (''type'', PStr p),
                                     (''jobId'', PStr (get_job_id st))])]\<rparr>))
   \<and> (\<not> truthy (snapshot_url st) \<longrightarrow> ensure_upload_url env p st = Return False st)"
proof (intro conjI impI)
  show iff: "(\<exists>st'. ensure_upload_url env p st = Return True st') \<longleftrightarrow>
       truthy (snapshot_url st)
       \<and> (\<exists>loc. upload_location st (PStr p) = Some loc \<and> clock st \<le> d_expires loc)"
    using ensure_upload_url_True ensure_upload_url_fresh by blast
  assume "\<exists>st'. ensure_upload_url env p st = Return True st'"
  with iff show "ensure_upload_url env p st = Return True st"
    using ensure_upload_url_fresh by blast
next
  assume h: "truthy (snapshot_url st)
        \<and> \<not> (\<exists>loc. upload_location st (PStr p) = Some loc \<and> clock st \<le> d_expires loc)
        \<and> emit_fault env (logger DEBUG ''getUrl'' st) ''getUrl''
             [(''serialNumber'', as_pyval (serial st)), (''method'', PStr ''post''),
              (''type'', PStr p), (''jobId'', PStr (get_job_id st))] = None"
  then have stale: "upload_location st (PStr p) = None
     \<or> (\<exists>loc. upload_location st (PStr p) = Some loc \<and> d_expires loc < clock st)"
    by (cases "upload_location st (PStr p)") auto
  from h have "get_url env p (get_job_id st) st =
     Return () (st\<lparr>logged := logged st @ [(DEBUG, ''getUrl'')],
                   emitted := emitted st @
                     [(''getUrl'', [(''serialNumber'', as_pyval (serial st)),
                                    (''method'', PStr ''post''),
                                    (''type'', PStr p),
                                    (''jobId'', PStr (get_job_id st))])]\<rparr>)"
    by (simp add: get_url_sent)
  with h stale show "ensure_upload_url env p st =
             Return False
               (st\<lparr>logged := logged st @ [(DEBUG, ''getUrl'')],
                    emitted := emitted st @
                      [(''getUrl'', [(''serialNumber'', as_pyval (serial st)),
                                     (''method'', PStr ''post''),
                                     (''type'', PStr p),
                                     (''jobId'', PStr (get_job_id st))])]\<rparr>)"
    by (simp add: ensure_upload_url_stale)
next
  assume "\<not> truthy (snapshot_url st)"
  then show "ensure_upload_url env p st = Return False st"
    by (rule ensure_upload_url_no_camera)
qed

text \<open>
  A camera is configured and nothing is cached: one \<open>getUrl\<close> for \<open>idle\<close> and job
  \<open>0\<close> goes out and the answer is false. No camera is configured: the answer is
  false and nothing goes out.
\<close>

theorem ensure_upload_url_fresh_iff_witness:
  "ensure_upload_url quiet ''idle''
       (init\<lparr>serial := Some ''SN1'', snapshot_url := Some ''http://cam/snap''\<rparr>)
     = Return False
         (init\<lparr>serial := Some ''SN1'', snapshot_url := Some ''http://cam/snap'',
               logged := [(DEBUG, ''getUrl'')],
               emitted := [(''getUrl'', [(''serialNumber'', PStr ''SN1''),
                                         (''method'', PStr ''post''),
                                         (''type'', PStr ''idle''),
                                         (''jobId'', PStr ''0'')])]\<rparr>)
   \<and> ensure_upload_url quiet ''idle'' (init\<lparr>serial := Some ''SN1''\<rparr>)
     = Return False (init\<lparr>serial := Some ''SN1''\<rparr>)"
proof -
  have a: "truthy (snapshot_url
             (init\<lparr>serial := Some ''SN1'', snapshot_url := Some ''http://cam/snap''\<rparr>))"
    by simp
  have b: "upload_location
             (init\<lparr>serial := Some ''SN1'', snapshot_url := Some ''http://cam/snap''\<rparr>)
             (PStr ''idle'') = None"
    by (simp add: init_def)
  have c: "emit_fault quiet s ev pl = None" for s ev pl
    by (simp add: quiet_def)
  have d: "get_job_id
             (init\<lparr>serial := Some ''SN1'', snapshot_url := Some ''http://cam/snap''\<rparr>) = ''0''"
    by (simp add: get_job_id_def init_def)
  have e: "\<not> truthy (snapshot_url (init\<lparr>serial := Some ''SN1''\<rparr>))"
    by (simp add: init_def)
  have f: "logged init = [] \<and> emitted init = []"
    by (simp add: init_def)
  show ?thesis
    using a b c d e f
      ensure_upload_url_fresh_iff
        [of quiet "''idle''"
            "init\<lparr>serial := Some ''SN1'', snapshot_url := Some ''http://cam/snap''\<rparr>"]
      ensure_upload_url_fresh_iff [of quiet "''idle''" "init\<lparr>serial := Some ''SN1''\<rparr>"]
    by simp
qed

text \<open>
  The claim as stated fails twice. At the instant of expiry the time is not strictly
  before the expiry, yet the answer is true and no \<open>getUrl\<close> goes out. With no
  snapshot URL and an empty cache the answer is false, yet no \<open>getUrl\<close> goes out.
\<close>

theorem ensure_upload_url_counterexample:
  "\<not> (clock init < d_expires \<lparr>d_expires = clock init, d_response = []\<rparr>)
   \<and> ensure_upload_url quiet ''idle''
        (init\<lparr>snapshot_url := Some ''http://cam/snap'',
              upload_location := [PStr ''idle'' \<mapsto> \<lparr>d_expires = clock init, d_response = []\<rparr>]\<rparr>)
      = Return True
        (init\<lparr>snapshot_url := Some ''http://cam/snap'',
              upload_location := [PStr ''idle'' \<mapsto> \<lparr>d_expires = clock init, d_response = []\<rparr>]\<rparr>)
   \<and> upload_location init (PStr ''idle'') = None
   \<and> ensure_upload_url quiet ''idle'' init = Return False init"
  by (simp add: ensure_upload_url_def init_def)

section \<open>Recording an upload location\<close>

lemma on_get_url_response_success:
  "fst (valid_packet r st) \<Longrightarrow> map_of r ''status'' = Some (PStr ''SUCCESS'') \<Longrightarrow>
   on_get_url_response env r st =
     record_upload_location env r
       (if has_all r [''type'', ''expires'', ''url'', ''maxSize'', ''fields'']
        then logger DEBUG ''getUrlResponse {}'' st
        else logger WARN ''getUrlResponse lacks a required property''
               (logger DEBUG ''getUrlResponse {}'' st))"
  by (simp add: on_get_url_response_def valid_packet_accepts Let_def has_key_def
      subscript_def)

lemma new_expires_logger [simp]:
  "new_expires env r (logger lvl line st) = new_expires env r st"
  by (simp add: new_expires_def logger_def split: sum.splits)

lemma new_expires_int:
  "map_of r ''expires'' = Some (PInt e) \<Longrightarrow> \<bar>e div 86400\<bar> \<le> 999999999 \<Longrightarrow>
   0 \<le> clock st + e * 1000000 \<Longrightarrow> clock st + e * 1000000 < 3652059 * 86400000000 \<Longrightarrow>
   new_expires env r st = Inr (clock st + e * 1000000)"
  by (simp add: new_expires_def dict_get_def timedelta_def datetime_add_def)

lemma new_expires_absent:
  "map_of r ''expires'' = None \<Longrightarrow> 0 \<le> clock st \<Longrightarrow>
   clock st < 3652059 * 86400000000 \<Longrightarrow> new_expires env r st = Inr (clock st)"
  by (simp add: new_expires_def dict_get_def timedelta_def datetime_add_def)

lemma record_upload_location_idle:
  "new_expires env r st = Inr x \<Longrightarrow> map_of r ''type'' = Some (PStr ''idle'') \<Longrightarrow>
   record_upload_location env r st =
     Return () (st\<lparr>upload_location := (upload_location st)
                      (PStr ''idle'' \<mapsto> \<lparr>d_expires = x, d_response = r\<rparr>),
                   logged := logged st @ [(DEBUG, ''response[type] = {}'')],
                   task_queue := task_queue st @ [Task_upload_snapshot]\<rparr>)"
  by (simp add: record_upload_location_def dict_get_def Let_def logger_def)

lemma record_upload_location_untyped:
  "new_expires env r st = Inr x \<Longrightarrow> map_of r ''type'' = None \<Longrightarrow>
   record_upload_location env r st =
     Return () (st\<lparr>upload_location := (upload_location st)
                      (PStr ''idle'' \<mapsto> \<lparr>d_expires = x, d_response = r\<rparr>),
                   logged := logged st @ [(DEBUG, ''response[type] = {}'')]\<rparr>)"
  by (simp add: record_upload_location_def dict_get_def Let_def logger_def)

text \<open>
  Claim C5, as amended. A \<open>getUrlResponse\<close> addressed to this device, with status
  \<open>SUCCESS\<close>, type \<open>idle\<close> and an \<open>expires\<close> that is an integer \<open>e\<close> of
  seconds which \<open>timedelta\<close> and \<open>datetime\<close> can represent (at most 999999999
  days, the expiry within the years 1 to 9999), is recorded: the cache then holds for
  \<open>idle\<close> the response with the expiry \<open>now + e\<close> seconds, and exactly one
  snapshot-upload task has been added at the end of the queue. The previous content
  of the cache plays no part: the state \<open>st\<close> is arbitrary.
\<close>

theorem idle_response_recorded_and_snapshot_queued:
  "fst (valid_packet r st) \<Longrightarrow>
   map_of r ''status'' = Some (PStr ''SUCCESS'') \<Longrightarrow>
   map_of r ''type'' = Some (PStr ''idle'') \<Longrightarrow>
   map_of r ''expires'' = Some (PInt e) \<Longrightarrow>
   \<bar>e div 86400\<bar> \<le> 999999999 \<Longrightarrow>
   0 \<le> clock st + e * 1000000 \<Longrightarrow>
   clock st + e * 1000000 < 3652059 * 86400000000 \<Longrightarrow>
   raised (on_get_url_response env r st) = None
   \<and> upload_location (state_of (on_get_url_response env r st))
       = (upload_location st)
           (PStr ''idle'' \<mapsto> \<lparr>d_expires = clock st + e * 1000000, d_response = r\<rparr>)
   \<and> task_queue (state_of (on_get_url_response env r st))
       = task_queue st @ [Task_upload_snapshot]"
proof -
  assume v: "fst (valid_packet r st)"
    and s: "map_of r ''status'' = Some (PStr ''SUCCESS'')"
    and t: "map_of r ''type'' = Some (PStr ''idle'')"
    and x: "map_of r ''expires'' = Some (PInt e)"
    and r1: "\<bar>e div 86400\<bar> \<le> 999999999"
    and r2: "0 \<le> clock st + e * 1000000"
    and r3: "clock st + e * 1000000 < 3652059 * 86400000000"
  have ne: "new_expires env r st = Inr (clock st + e * 1000000)"
    using x r1 r2 r3 by (rule new_expires_int)
  show ?thesis
  proof (cases "has_all r [''type'', ''expires'', ''url'', ''maxSize'', ''fields'']")
    case True
    then have "on_get_url_response env r st =
        record_upload_location env r (logger DEBUG ''getUrlResponse {}'' st)"
      using v s by (simp add: on_get_url_response_success del: has_all.simps)
    moreover have "new_expires env r (logger DEBUG ''getUrlResponse {}'' st)
        = Inr (clock st + e * 1000000)"
      using ne by simp
    ultimately show ?thesis
      using t by (simp add: record_upload_location_idle logger_def)
  next
    case False
    then have "on_get_url_response env r st =
        record_upload_location env r
          (logger WARN ''getUrlResponse lacks a required property''
             (logger DEBUG ''getUrlResponse {}'' st))"
      using v s by (simp add: on_get_url_response_success del: has_all.simps)
    moreover have "new_expires env r
          (logger WARN ''getUrlResponse lacks a required property''
             (logger DEBUG ''getUrlResponse {}'' st))
        = Inr (clock st + e * 1000000)"
      using ne by simp
    ultimately show ?thesis
      using t by (simp add: record_upload_location_idle logger_def)
  qed
qed

text \<open>
  The device \<open>SN1\<close> already holds a descriptor for \<open>idle\<close> and receives a
  response that expires in 60 seconds: the descriptor is replaced, its expiry is the
  clock plus 60 seconds, and one snapshot upload is queued.
\<close>

theorem idle_response_recorded_and_snapshot_queued_witness:
  "upload_location (state_of (on_get_url_response quiet
       [(''serialNumber'', PStr ''SN1''), (''status'', PStr ''SUCCESS''),
        (''type'', PStr ''idle''), (''expires'', PInt 60), (''url'', PStr ''https://x''),
        (''maxSize'', PInt 1000000), (''fields'', PDict [])]
       (init\<lparr>serial := Some ''SN1'',
             upload_location := [PStr ''idle'' \<mapsto> \<lparr>d_expires = 7, d_response = []\<rparr>]\<rparr>)))
     (PStr ''idle'')
    = Some \<lparr>d_expires = 63618825660000000,
            d_response =
              [(''serialNumber'', PStr ''SN1''), (''status'', PStr ''SUCCESS''),
               (''type'', PStr ''idle''), (''expires'', PInt 60), (''url'', PStr ''https://x''),
               (''maxSize'', PInt 1000000), (''fields'', PDict [])]\<rparr>
   \<and> task_queue (state_of (on_get_url_response quiet
       [(''serialNumber'', PStr ''SN1''), (''status'', PStr ''SUCCESS''),
        (''type'', PStr ''idle''), (''expires'', PInt 60), (''url'', PStr ''https://x''),
        (''maxSize'', PInt 1000000), (''fields'', PDict [])]
       (init\<lparr>serial := Some ''SN1'',
             upload_location := [PStr ''idle'' \<mapsto> \<lparr>d_expires = 7, d_response = []\<rparr>]\<rparr>)))
    = [Task_upload_snapshot]"
proof -
  have v: "fst (valid_packet
       [(''serialNumber'', PStr ''SN1''), (''status'', PStr ''SUCCESS''),
        (''type'', PStr ''idle''), (''expires'', PInt 60), (''url'', PStr ''https://x''),
        (''maxSize'', PInt 1000000), (''fields'', PDict [])]
       (init\<lparr>serial := Some ''SN1'',
             upload_location := [PStr ''idle'' \<mapsto> \<lparr>d_expires = 7, d_response = []\<rparr>]\<rparr>))"
    by (simp add: valid_packet_def dict_get_def)
  have c: "clock (init\<lparr>serial := Some ''SN1'',
             upload_location := [PStr ''idle'' \<mapsto> \<lparr>d_expires = 7, d_response = []\<rparr>]\<rparr>)
           = 63618825600000000"
    by (simp add: init_def)
  have q: "task_queue (init\<lparr>serial := Some ''SN1'',
             upload_location := [PStr ''idle'' \<mapsto> \<lparr>d_expires = 7, d_response = []\<rparr>]\<rparr>)
           = []"
    by (simp add: init_def)
  show ?thesis
    using idle_response_recorded_and_snapshot_queued [OF v, of 60 quiet] c q
    by simp
qed

text \<open>
  The claim as stated fails when \<open>expires\<close> is not such a number. The same
  response with \<open>expires\<close> null passes the address check, has status \<open>SUCCESS\<close>
  and type \<open>idle\<close>, yet \<open>int()\<close> raises \<open>TypeError\<close> before the store: nothing
  is cached and nothing is queued. With \<open>expires\<close> of \<open>10^15\<close> seconds
  \<open>timedelta\<close> raises \<open>OverflowError\<close>, with the same outcome.
\<close>

theorem idle_response_expires_counterexample:
  "fst (valid_packet
       [(''serialNumber'', PStr ''SN1''), (''status'', PStr ''SUCCESS''),
        (''type'', PStr ''idle''), (''expires'', PNone), (''url'', PStr ''https://x''),
        (''maxSize'', PInt 1000000), (''fields'', PDict [])]
       (init\<lparr>serial := Some ''SN1''\<rparr>))
   \<and> raised (on_get_url_response quiet
       [(''serialNumber'', PStr ''SN1''), (''status'', PStr ''SUCCESS''),
        (''type'', PStr ''idle''), (''expires'', PNone), (''url'', PStr ''https://x''),
        (''maxSize'', PInt 1000000), (''fields'', PDict [])]
       (init\<lparr>serial := Some ''SN1''\<rparr>)) = Some TypeError
   \<and> upload_location (state_of (on_get_url_response quiet
       [(''serialNumber'', PStr ''SN1''), (''status'', PStr ''SUCCESS''),
        (''type'', PStr ''idle''), (''expires'', PNone), (''url'', PStr ''https://x''),
        (''maxSize'', PInt 1000000), (''fields'', PDict [])]
       (init\<lparr>serial := Some ''SN1''\<rparr>))) (PStr ''idle'') = None
   \<and> task_queue (state_of (on_get_url_response quiet
       [(''serialNumber'', PStr ''SN1''), (''status'', PStr ''SUCCESS''),
        (''type'', PStr ''idle''), (''expires'', PNone), (''url'', PStr ''https://x''),
        (''maxSize'', PInt 1000000), (''fields'', PDict [])]
       (init\<lparr>serial := Some ''SN1''\<rparr>))) = []
   \<and> raised (on_get_url_response quiet
       [(''serialNumber'', PStr ''SN1''), (''status'', PStr ''SUCCESS''),
        (''type'', PStr ''idle''), (''expires'', PInt 1000000000000000),
        (''url'', PStr ''https://x''), (''maxSize'', PInt 1000000), (''fields'', PDict [])]
       (init\<lparr>serial := Some ''SN1''\<rparr>)) = Some OverflowError
   \<and> upload_location (state_of (on_get_url_response quiet
       [(''serialNumber'', PStr ''SN1''), (''status'', PStr ''SUCCESS''),
        (''type'', PStr ''idle''), (''expires'', PInt 1000000000000000),
        (''url'', PStr ''https://x''), (''maxSize'', PInt 1000000), (''fields'', PDict [])]
       (init\<lparr>serial := Some ''SN1''\<rparr>))) (PStr ''idle'') = None
   \<and> task_queue (state_of (on_get_url_response quiet
       [(''serialNumber'', PStr ''SN1''), (''status'', PStr ''SUCCESS''),
        (''type'', PStr ''idle''), (''expires'', PInt 1000000000000000),
        (''url'', PStr ''https://x''), (''maxSize'', PInt 1000000), (''fields'', PDict [])]
       (init\<lparr>serial := Some ''SN1''\<rparr>))) = []"
  by (simp add: on_get_url_response_def valid_packet_def dict_get_def has_key_def
      subscript_def record_upload_location_def new_expires_def timedelta_def
      datetime_add_def logger_def init_def Let_def)

text \<open>
  Claim C10, as amended. A \<open>getUrlResponse\<close> addressed to this device, with status
  \<open>SUCCESS\<close> and no \<open>type\<close> field, whose \<open>expires\<close> (taken as 0 when absent)
  converts to an expiry \<open>x\<close> without raising (an integer number of seconds does,
  within the range of \<open>datetime\<close>, and so does an absent field), is stored in the
  cache under the key \<open>idle\<close> with that expiry; no task is queued, because the test
  that queues the snapshot upload reads the missing type as the empty string.
\<close>

theorem untyped_response_stored_as_idle_without_snapshot:
  "fst (valid_packet r st) \<Longrightarrow>
   map_of r ''status'' = Some (PStr ''SUCCESS'') \<Longrightarrow>
   map_of r ''type'' = None \<Longrightarrow>
   new_expires env r st = Inr x \<Longrightarrow>
   raised (on_get_url_response env r st) = None
   \<and> upload_location (state_of (on_get_url_response env r st))
       = (upload_location st) (PStr ''idle'' \<mapsto> \<lparr>d_expires = x, d_response = r\<rparr>)
   \<and> task_queue (state_of (on_get_url_response env r st)) = task_queue st"
proof -
  assume v: "fst (valid_packet r st)"
    and s: "map_of r ''status'' = Some (PStr ''SUCCESS'')"
    and t: "map_of r ''type'' = None"
    and ne: "new_expires env r st = Inr x"
  from t have "\<not> has_all r [''type'', ''expires'', ''url'', ''maxSize'', ''fields'']"
    by (simp add: has_key_def)
  then have "on_get_url_response env r st =
      record_upload_location env r
        (logger WARN ''getUrlResponse lacks a required property''
           (logger DEBUG ''getUrlResponse {}'' st))"
    using v s by (simp add: on_get_url_response_success del: has_all.simps)
  moreover have "new_expires env r
        (logger WARN ''getUrlResponse lacks a required property''
           (logger DEBUG ''getUrlResponse {}'' st)) = Inr x"
    using ne by simp
  ultimately show ?thesis
    using t by (simp add: record_upload_location_untyped logger_def)
qed

text \<open>
  A response without a type that expires in 60 seconds: it is stored under \<open>idle\<close>
  and the queue stays empty.
\<close>

theorem untyped_response_stored_as_idle_without_snapshot_witness:
  "upload_location (state_of (on_get_url_response quiet
       [(''serialNumber'', PStr ''SN1''), (''status'', PStr ''SUCCESS''),
        (''expires'', PInt 60), (''url'', PStr ''https://x''),
        (''maxSize'', PInt 1000000), (''fields'', PDict [])]
       (init\<lparr>serial := Some ''SN1''\<rparr>)))
     (PStr ''idle'')
    = Some \<lparr>d_expires = 63618825660000000,
            d_response =
              [(''serialNumber'', PStr ''SN1''), (''status'', PStr ''SUCCESS''),
               (''expires'', PInt 60), (''url'', PStr ''https://x''),
               (''maxSize'', PInt 1000000), (''fields'', PDict [])]\<rparr>
   \<and> task_queue (state_of (on_get_url_response quiet
       [(''serialNumber'', PStr ''SN1''), (''status'', PStr ''SUCCESS''),
        (''expires'', PInt 60), (''url'', PStr ''https://x''),
        (''maxSize'', PInt 1000000), (''fields'', PDict [])]
       (init\<lparr>serial := Some ''SN1''\<rparr>)))
    = []"
proof -
  have v: "fst (valid_packet
       [(''serialNumber'', PStr ''SN1''), (''status'', PStr ''SUCCESS''),
        (''expires'', PInt 60), (''url'', PStr ''https://x''),
        (''maxSize'', PInt 1000000), (''fields'', PDict [])]
       (init\<lparr>serial := Some ''SN1''\<rparr>))"
    by (simp add: valid_packet_def dict_get_def)
  have ne: "new_expires quiet
       [(''serialNumber'', PStr ''SN1''), (''status'', PStr ''SUCCESS''),
        (''expires'', PInt 60), (''url'', PStr ''https://x''),
        (''maxSize'', PInt 1000000), (''fields'', PDict [])]
       (init\<lparr>serial := Some ''SN1''\<rparr>) = Inr 63618825660000000"
    by (simp add: new_expires_def dict_get_def timedelta_def datetime_add_def init_def)
  have q: "task_queue (init\<lparr>serial := Some ''SN1''\<rparr>) = []"
    by (simp add: init_def)
  show ?thesis
    using untyped_response_stored_as_idle_without_snapshot [OF v _ _ ne] q
    by simp
qed

text \<open>
  The claim as stated fails when \<open>expires\<close> does not convert. A response without
  a type and with \<open>expires\<close> null passes the address check and has status
  \<open>SUCCESS\<close>, yet \<open>int()\<close> raises \<open>TypeError\<close> before the store: nothing is
  cached under \<open>idle\<close>.
\<close>

theorem untyped_response_expires_counterexample:
  "fst (valid_packet
       [(''serialNumber'', PStr ''SN1''), (''status'', PStr ''SUCCESS''),
        (''expires'', PNone), (''url'', PStr ''https://x''),
        (''maxSize'', PInt 1000000), (''fields'', PDict [])]
       (init\<lparr>serial := Some ''SN1''\<rparr>))
   \<and> map_of [(''serialNumber'', PStr ''SN1''), (''status'', PStr ''SUCCESS''),
        (''expires'', PNone), (''url'', PStr ''https://x''),
        (''maxSize'', PInt 1000000), (''fields'', PDict [])] ''type'' = None
   \<and> raised (on_get_url_response quiet
       [(''serialNumber'', PStr ''SN1''), (''status'', PStr ''SUCCESS''),
        (''expires'', PNone), (''url'', PStr ''https://x''),
        (''maxSize'', PInt 1000000), (''fields'', PDict [])]
       (init\<lparr>serial := Some ''SN1''\<rparr>)) = Some TypeError
   \<and> upload_location (state_of (on_get_url_response quiet
       [(''serialNumber'', PStr ''SN1''), (''status'', PStr ''SUCCESS''),
        (''expires'', PNone), (''url'', PStr ''https://x''),
        (''maxSize'', PInt 1000000), (''fields'', PDict [])]
       (init\<lparr>serial := Some ''SN1''\<rparr>))) (PStr ''idle'') = None"
  by (simp add: on_get_url_response_def valid_packet_def dict_get_def has_key_def
      subscript_def record_upload_location_def new_expires_def timedelta_def
      datetime_add_def logger_def init_def Let_def)

text \<open>
  Claim C4 does not hold of the code. After warning that a required property is
  lacking, the handler does not return (the two tests before it do): a response that
  has only a serial number, the status \<open>SUCCESS\<close> and the type \<open>idle\<close> is stored
  with an expiry equal to the current time, and a snapshot upload is queued.
\<close>

theorem incomplete_response_is_stored:
  "\<not> has_all [(''serialNumber'', PStr ''SN1''), (''status'', PStr ''SUCCESS''),
               (''type'', PStr ''idle'')]
              [''type'', ''expires'', ''url'', ''maxSize'', ''fields'']
   \<and> upload_location (init\<lparr>serial := Some ''SN1''\<rparr>) (PStr ''idle'') = None
   \<and> raised (on_get_url_response quiet
        [(''serialNumber'', PStr ''SN1''), (''status'', PStr ''SUCCESS''),
         (''type'', PStr ''idle'')] (init\<lparr>serial := Some ''SN1''\<rparr>)) = None
   \<and> upload_location (state_of (on_get_url_response quiet
        [(''serialNumber'', PStr ''SN1''), (''status'', PStr ''SUCCESS''),
         (''type'', PStr ''idle'')] (init\<lparr>serial := Some ''SN1''\<rparr>))) (PStr ''idle'')
      = Some \<lparr>d_expires = 63618825600000000,
              d_response = [(''serialNumber'', PStr ''SN1''), (''status'', PStr ''SUCCESS''),
                            (''type'', PStr ''idle'')]\<rparr>
   \<and> task_queue (state_of (on_get_url_response quiet
        [(''serialNumber'', PStr ''SN1''), (''status'', PStr ''SUCCESS''),
         (''type'', PStr ''idle'')] (init\<lparr>serial := Some ''SN1''\<rparr>)))
      = [Task_upload_snapshot]
   \<and> logged (state_of (on_get_url_response quiet
        [(''serialNumber'', PStr ''SN1''), (''status'', PStr ''SUCCESS''),
         (''type'', PStr ''idle'')] (init\<lparr>serial := Some ''SN1''\<rparr>)))
      = [(DEBUG, ''getUrlResponse {}''),
         (WARN, ''getUrlResponse lacks a required property''),
         (DEBUG, ''response[type] = {}'')]"
  by (simp add: on_get_url_response_def valid_packet_def dict_get_def has_key_def
      subscript_def record_upload_location_def new_expires_def timedelta_def
      datetime_add_def logger_def init_def Let_def)

section \<open>The temperature command\<close>

lemma on_temperature_valid:
  "fst (valid_packet m st) \<Longrightarrow> on_temperature m st = Raise (NameError ''re'') st"
proof -
  assume v: "fst (valid_packet m st)"
  then have "map_of m ''serialNumber'' \<noteq> None"
    by (auto simp: valid_packet_fst)
  then obtain kv rest where "m = kv # rest"
    by (cases m) auto
  with v show ?thesis
    by (simp add: on_temperature_def valid_packet_accepts)
qed

text \<open>
  Claim C8 does not hold of the code. The device \<open>SN1\<close> receives
  \<open>temperature{serialNumber: SN1, bed: 60}\<close>: the handler raises \<open>NameError\<close> at
  the first key, because the module never imports \<open>re\<close>, and the printer has been
  asked nothing. (A message for another device is dropped by the address check, as the
  claim says.)
\<close>

theorem temperature_bed_60_raises:
  "on_temperature [(''serialNumber'', PStr ''SN1''), (''bed'', PInt 60)]
       (init\<lparr>serial := Some ''SN1''\<rparr>)
     = Raise (NameError ''re'') (init\<lparr>serial := Some ''SN1''\<rparr>)
   \<and> printer_calls (state_of
         (on_temperature [(''serialNumber'', PStr ''SN1''), (''bed'', PInt 60)]
            (init\<lparr>serial := Some ''SN1''\<rparr>))) = []
   \<and> printer_calls (state_of
         (on_temperature [(''serialNumber'', PStr ''SN2''), (''bed'', PInt 60)]
            (init\<lparr>serial := Some ''SN1''\<rparr>))) = []"
  by (simp add: on_temperature_def valid_packet_def dict_get_def logger_def init_def)

section \<open>The heartbeat interval\<close>

lemma status_phase_no_serial:
  "\<not> truthy (serial st) \<Longrightarrow> status_phase env st = Return () st"
  by (simp add: status_phase_def)

lemma status_phase_idle:
  "truthy (serial st) \<Longrightarrow> \<not> cloud_print st \<Longrightarrow> \<not> printing st \<Longrightarrow>
   status_payload env (logger DEBUG ''{}'' st) = Inr status \<Longrightarrow>
   emit_fault env (logger DEBUG ''{}'' st) ''status'' status = None \<Longrightarrow>
   status_phase env st =
     Return () (st\<lparr>logged := logged st @ [(DEBUG, ''{}'')],
                   emitted := emitted st @ [(''status'', status)],
                   update_interval := 60\<rparr>)"
  by (simp add: status_phase_def current_status_def socket_emit_def logger_def Let_def)

lemma wait_loop_quiet:
  "task_queue st = [] \<Longrightarrow> wait_loop quiet n st = Return () st"
  by (induction n) (simp_all add: drain_one_def quiet_def)

text \<open>
  Claim C7, as amended. A print-started or print-resumed event sets the update
  interval to 10 seconds. At a heartbeat tick on which a serial number is set, neither
  a cloud print nor local printing is active, and the status message is built and
  emitted without failure, the interval is reset to 60 seconds, and the wait of that
  same tick already runs for 60 slices. At a tick with no serial number set, the
  status phase does nothing and the interval stays as it was.
\<close>

theorem interval_transitions:
  "(ev = PRINT_STARTED \<or> ev = PRINT_RESUMED \<longrightarrow>
      on_event ev st = Return () (st\<lparr>update_interval := 10\<rparr>))
   \<and> (truthy (serial st) \<and> \<not> cloud_print st \<and> \<not> printing st
        \<and> status_payload env (logger DEBUG ''{}'' st) = Inr status
        \<and> emit_fault env (logger DEBUG ''{}'' st) ''status'' status = None
       \<longrightarrow> status_phase env st =
             Return () (st\<lparr>logged := logged st @ [(DEBUG, ''{}'')],
                           emitted := emitted st @ [(''status'', status)],
                           update_interval := 60\<rparr>)
           \<and> loop_body env st =
             (case wait_loop env 60
                     (st\<lparr>logged := logged st @ [(DEBUG, ''{}'')],
                         emitted := emitted st @ [(''status'', status)],
                         update_interval := 60\<rparr>) of
                Raise e st2 \<Rightarrow> Raise e st2
              | Return v st2 \<Rightarrow> snapshot_phase env st2))
   \<and> (\<not> truthy (serial st) \<longrightarrow> status_phase env st = Return () st)"
proof (intro conjI impI)
  assume "ev = PRINT_STARTED \<or> ev = PRINT_RESUMED"
  then show "on_event ev st = Return () (st\<lparr>update_interval := 10\<rparr>)"
    by (auto simp: on_event_def)
next
  assume h: "truthy (serial st) \<and> \<not> cloud_print st \<and> \<not> printing st
        \<and> status_payload env (logger DEBUG ''{}'' st) = Inr status
        \<and> emit_fault env (logger DEBUG ''{}'' st) ''status'' status = None"
  then show sp: "status_phase env st =
             Return () (st\<lparr>logged := logged st @ [(DEBUG, ''{}'')],
                           emitted := emitted st @ [(''status'', status)],
                           update_interval := 60\<rparr>)"
    by (simp add: status_phase_idle)
  show "loop_body env st =
             (case wait_loop env 60
                     (st\<lparr>logged := logged st @ [(DEBUG, ''{}'')],
                         emitted := emitted st @ [(''status'', status)],
                         update_interval := 60\<rparr>) of
                Raise e st2 \<Rightarrow> Raise e st2
              | Return v st2 \<Rightarrow> snapshot_phase env st2)"
    unfolding loop_body_def sp by simp
next
  assume "\<not> truthy (serial st)"
  then show "status_phase env st = Return () st"
    by (rule status_phase_no_serial)
qed

text \<open>
  The registered device \<open>SN1\<close> is told that a print starts; the print over, the
  next tick brings the interval back from 10 to 60.
\<close>

theorem interval_transitions_witness:
  "on_event PRINT_STARTED (init\<lparr>serial := Some ''SN1''\<rparr>)
     = Return () (init\<lparr>serial := Some ''SN1'', update_interval := 10\<rparr>)
   \<and> update_interval (state_of
        (status_phase quiet (init\<lparr>serial := Some ''SN1'', update_interval := 10\<rparr>))) = 60
   \<and> status_phase quiet (init\<lparr>update_interval := 10\<rparr>)
     = Return () (init\<lparr>update_interval := 10\<rparr>)"
proof -
  have d: "\<not> truthy (serial (init\<lparr>update_interval := 10\<rparr>))"
    by (simp add: init_def)
  have a: "truthy (serial (init\<lparr>serial := Some ''SN1'', update_interval := 10\<rparr>))
        \<and> \<not> cloud_print (init\<lparr>serial := Some ''SN1'', update_interval := 10\<rparr>)
        \<and> \<not> printing (init\<lparr>serial := Some ''SN1'', update_interval := 10\<rparr>)"
    by (simp add: init_def)
  have b: "status_payload quiet
             (logger DEBUG ''{}'' (init\<lparr>serial := Some ''SN1'', update_interval := 10\<rparr>))
           = Inr [(''serialNumber'', PStr ''SN1'')]"
    by (simp add: quiet_def logger_def)
  have c: "emit_fault quiet
             (logger DEBUG ''{}'' (init\<lparr>serial := Some ''SN1'', update_interval := 10\<rparr>))
             ''status'' [(''serialNumber'', PStr ''SN1'')] = None"
    by (simp add: quiet_def)
  show ?thesis
    using a b c d
      interval_transitions [of _ "init\<lparr>update_interval := 10\<rparr>" quiet]
      interval_transitions [of PRINT_STARTED "init\<lparr>serial := Some ''SN1''\<rparr>"]
      interval_transitions
        [of _ "init\<lparr>serial := Some ''SN1'', update_interval := 10\<rparr>" quiet
            "[(''serialNumber'', PStr ''SN1'')]"]
    by simp
qed

text \<open>
  The claim as stated fails on a device with no serial number (registration has not
  answered yet): a print starts, the interval becomes 10; with no cloud print and no
  local printing active, a whole heartbeat iteration later it is still 10.
\<close>

theorem interval_not_reset_counterexample:
  "on_event PRINT_STARTED init = Return () (init\<lparr>update_interval := 10\<rparr>)
   \<and> \<not> cloud_print (init\<lparr>update_interval := 10\<rparr>)
   \<and> \<not> printing (init\<lparr>update_interval := 10\<rparr>)
   \<and> loop_iteration quiet (init\<lparr>update_interval := 10\<rparr>)
       = Return () (init\<lparr>update_interval := 10\<rparr>)
   \<and> update_interval (state_of (loop_iteration quiet (init\<lparr>update_interval := 10\<rparr>))) = 10"
proof -
  have q: "task_queue (init\<lparr>update_interval := 10\<rparr>) = []"
    by (simp add: init_def)
  have s: "\<not> truthy (serial (init\<lparr>update_interval := 10\<rparr>))"
    by (simp add: init_def)
  have "loop_iteration quiet (init\<lparr>update_interval := 10\<rparr>)
       = Return () (init\<lparr>update_interval := 10\<rparr>)"
    using s by (simp add: loop_iteration_def loop_body_def status_phase_no_serial
        wait_loop_quiet [OF q] snapshot_phase_def)
  then show ?thesis
    by (simp add: on_event_def init_def)
qed
section \<open>The heartbeat loop survives failures\<close>

lemma loop_iteration_returns: "raised (loop_iteration env st) = None"
  by (simp add: loop_iteration_def split: result.splits)

lemma loop_iteration_catches:
  "loop_body env st = Raise e st1 \<Longrightarrow>
     loop_iteration env st = Return () (logger WARN ''polar_status exception: {}'' st1)"
  by (simp add: loop_iteration_def)

lemma heartbeat_loop_returns: "raised (heartbeat_loop env n st) = None"
proof (induction n arbitrary: st)
  case 0
  show ?case by simp
next
  case (Suc n)
  obtain st1 where "loop_iteration env st = Return () st1"
    using loop_iteration_returns [of env st]
    by (cases "loop_iteration env st") auto
  then show ?case
    using Suc.IH [of st1] by simp
qed

lemma status_phase_payload_fails:
  "truthy (serial st) \<Longrightarrow> status_payload env (logger DEBUG ''{}'' st) = Inl e \<Longrightarrow>
     status_phase env st = Raise e (logger DEBUG ''{}'' st)"
  by (simp add: status_phase_def current_status_def Let_def)

lemma polar_status_heartbeat_survives:
  "drain_one env st = Return () st1 \<Longrightarrow> socket_wait env 5 st1 = Return () st2 \<Longrightarrow>
     raised (polar_status_heartbeat env n st) = None"
  by (simp add: polar_status_heartbeat_def heartbeat_loop_returns)

text \<open>
  Claim C6. An exception raised anywhere in the body of one iteration (building the
  status, emitting it, running a queued task, waiting on the socket, uploading the
  snapshot) is caught by the handler around the body and logged as a warning, and the
  loop goes on with the next iteration from the state the failed one left. No
  iteration lets an exception out, so for every number of iterations the loop is
  still running after them: a failure never ends it.
\<close>

theorem heartbeat_loop_never_dies:
  "(loop_body env st = Raise e st1 \<longrightarrow>
      loop_iteration env st = Return () (logger WARN ''polar_status exception: {}'' st1)
      \<and> heartbeat_loop env (Suc n) st
          = heartbeat_loop env n (logger WARN ''polar_status exception: {}'' st1))
   \<and> raised (loop_iteration env st) = None
   \<and> raised (heartbeat_loop env n st) = None"
proof (intro conjI impI)
  assume r: "loop_body env st = Raise e st1"
  then show c: "loop_iteration env st
      = Return () (logger WARN ''polar_status exception: {}'' st1)"
    by (rule loop_iteration_catches)
  show "heartbeat_loop env (Suc n) st
          = heartbeat_loop env n (logger WARN ''polar_status exception: {}'' st1)"
    by (simp add: c)
next
  show "raised (loop_iteration env st) = None"
    by (rule loop_iteration_returns)
  show "raised (heartbeat_loop env n st) = None"
    by (rule heartbeat_loop_returns)
qed

text \<open>
  The printer of the device \<open>SN1\<close> is in a state the status mapping lacks: building
  the status raises \<open>KeyError\<close> in the body, the iteration logs the warning and
  returns, and the loop goes on.
\<close>

theorem heartbeat_loop_never_dies_witness:
  "loop_body unmapped_state (init\<lparr>serial := Some ''SN1''\<rparr>)
     = Raise (KeyError ''STARTING'') (init\<lparr>serial := Some ''SN1'', logged := [(DEBUG, ''{}'')]\<rparr>)
   \<and> loop_iteration unmapped_state (init\<lparr>serial := Some ''SN1''\<rparr>)
     = Return () (init\<lparr>serial := Some ''SN1'',
          logged := [(DEBUG, ''{}''), (WARN, ''polar_status exception: {}'')]\<rparr>)
   \<and> heartbeat_loop unmapped_state (Suc 2) (init\<lparr>serial := Some ''SN1''\<rparr>)
     = heartbeat_loop unmapped_state 2 (init\<lparr>serial := Some ''SN1'',
          logged := [(DEBUG, ''{}''), (WARN, ''polar_status exception: {}'')]\<rparr>)
   \<and> raised (heartbeat_loop unmapped_state 2 (init\<lparr>serial := Some ''SN1''\<rparr>)) = None"
proof -
  have "status_payload unmapped_state (logger DEBUG ''{}'' (init\<lparr>serial := Some ''SN1''\<rparr>))
          = Inl (KeyError ''STARTING'')"
    by (simp add: unmapped_state_def)
  then have "status_phase unmapped_state (init\<lparr>serial := Some ''SN1''\<rparr>)
          = Raise (KeyError ''STARTING'') (logger DEBUG ''{}'' (init\<lparr>serial := Some ''SN1''\<rparr>))"
    by (simp add: status_phase_payload_fails)
  then have r: "loop_body unmapped_state (init\<lparr>serial := Some ''SN1''\<rparr>)
     = Raise (KeyError ''STARTING'') (init\<lparr>serial := Some ''SN1'', logged := [(DEBUG, ''{}'')]\<rparr>)"
    by (simp add: loop_body_def logger_def init_def)
  show ?thesis
    using r
      heartbeat_loop_never_dies
        [of unmapped_state "init\<lparr>serial := Some ''SN1''\<rparr>" "KeyError ''STARTING''"
            "init\<lparr>serial := Some ''SN1'', logged := [(DEBUG, ''{}'')]\<rparr>" 2]
    by (simp add: logger_def)
qed

end
